theory Spec2Isabelle
  imports Complex_Main "HOL-Library.Sublist"
begin

section \<open>Python values and exceptions\<close>

text \<open>
  The value that \<open>response.json()\<close> hands back is an arbitrary decoded JSON document, and
  the handler passes a part of it on without looking at its type. Values are therefore a
  datatype of their own. A dict is a list of entries, read by key with \<open>map_of\<close>.
\<close>

datatype pyval =
    PNone
  | PBool bool
  | PInt int
  | PFloat real
  | PStr string
  | PList "pyval list"
  | PDict "(string \<times> pyval) list"

text \<open>\<open>type(v).__name__\<close>, as it appears in the text of an \<open>AttributeError\<close>.\<close>

fun type_name :: "pyval \<Rightarrow> string" where
  "type_name PNone = ''NoneType''"
| "type_name (PBool b) = ''bool''"
| "type_name (PInt i) = ''int''"
| "type_name (PFloat x) = ''float''"
| "type_name (PStr s) = ''str''"
| "type_name (PList xs) = ''list''"
| "type_name (PDict kvs) = ''dict''"

text \<open>
  An exception is its place in the class hierarchy, as far as the three \<open>except\<close> clauses
  of \<open>handle_message\<close> tell classes apart, and its text \<open>str(e)\<close>:
  \<^item> \<open>ConnectionError\<close>: \<open>requests.exceptions.ConnectionError\<close> or a subclass;
  \<^item> \<open>HTTPError\<close>: \<open>requests.exceptions.HTTPError\<close> or a subclass;
  \<^item> \<open>OtherException\<close>: any other subclass of \<open>Exception\<close>.

  Exceptions outside \<open>Exception\<close> (an interrupt, a cancelled task) are not modelled.
\<close>

datatype exn_class = ConnectionError | HTTPError | OtherException

datatype exn = Exn exn_class string

fun class_of :: "exn \<Rightarrow> exn_class" where
  "class_of (Exn c m) = c"

fun str_exn :: "exn \<Rightarrow> string" where
  "str_exn (Exn c m) = m"

datatype result = Returned | Raised exn

fun result_of :: "exn option \<Rightarrow> result" where
  "result_of None = Returned"
| "result_of (Some e) = Raised e"

subsection \<open>Formatting\<close>

text \<open>\<open>str(n)\<close> for a Python int: decimal digits, with a minus sign when negative.\<close>

definition digit_char :: "nat \<Rightarrow> char" where
  "digit_char d = ''0123456789'' ! d"

function str_nat :: "nat \<Rightarrow> string" where
  "str_nat n = (if n < 10 then [digit_char n] else str_nat (n div 10) @ [digit_char (n mod 10)])"
  by pat_completeness auto
termination
  by (relation "measure (\<lambda>n. n)") auto

declare str_nat.simps [simp del]

definition str_int :: "int \<Rightarrow> string" where
  "str_int i = (if i < 0 then CHR ''-'' # str_nat (nat (- i)) else str_nat (nat i))"

text \<open>An f-string field \<open>{x}\<close> for a value that is a string or \<open>None\<close>.\<close>

fun str_opt :: "string option \<Rightarrow> string" where
  "str_opt None = ''None''"
| "str_opt (Some s) = s"

text \<open>Python's \<open>not x\<close> for a value that is a string or \<open>None\<close>: both \<open>None\<close> and the empty string are falsy.\<close>

fun py_not :: "string option \<Rightarrow> bool" where
  "py_not None = True"
| "py_not (Some s) = (s = [])"

section \<open>Configuration (lines 12 to 17)\<close>

record config =
  TELEGRAM_BOT_TOKEN :: string
  OLLAMA_HOST :: "string option"
  OLLAMA_GENERATE_ENDPOINT :: string
  OLLAMA_MODEL :: string

text \<open>\<open>os.environ.get(key, default)\<close>.\<close>

definition environ_get :: "(string \<rightharpoonup> string) \<Rightarrow> string \<Rightarrow> string \<Rightarrow> string" where
  "environ_get environ key dflt = (case environ key of None \<Rightarrow> dflt | Some v \<Rightarrow> v)"

text \<open>The four module-level assignments, run once when the module is loaded.\<close>

definition load_config :: "(string \<rightharpoonup> string) \<Rightarrow> config" where
  "load_config environ =
     \<lparr> TELEGRAM_BOT_TOKEN = environ_get environ ''TELEGRAM_BOT_TOKEN'' ''YOUR_TELEGRAM_BOT_TOKEN'',
       OLLAMA_HOST = environ ''OLLAMA_HOST'',
       OLLAMA_GENERATE_ENDPOINT = str_opt (environ ''OLLAMA_HOST'') @ ''/api/generate'',
       OLLAMA_MODEL = environ_get environ ''OLLAMA_MODEL'' ''llama3'' \<rparr>"

section \<open>The two collaborators\<close>

record payload =
  model :: string
  prompt :: string
  stream :: bool

text \<open>
  What the handler sees of a \<open>requests.Response\<close>: the status line, the address, and what
  \<open>response.json()\<close> does (it returns the decoded document or raises).
\<close>

record response =
  status_code :: int
  reason :: string
  url :: string
  json_body :: "exn + pyval"

text \<open>
  \<open>Response.raise_for_status\<close> of the \<open>requests\<close> library. It builds a message for the
  status codes 400 to 499 and another for 500 to 599, and raises \<open>HTTPError\<close> with it
  when there is one; for every other code the message stays empty and the call returns.
\<close>

definition http_error_msg :: "response \<Rightarrow> string" where
  "http_error_msg r =
     (if 400 \<le> status_code r \<and> status_code r < 500 then
        str_int (status_code r) @ '' Client Error: '' @ reason r @ '' for url: '' @ url r
      else if 500 \<le> status_code r \<and> status_code r < 600 then
        str_int (status_code r) @ '' Server Error: '' @ reason r @ '' for url: '' @ url r
      else [])"

definition raise_for_status :: "response \<Rightarrow> exn option" where
  "raise_for_status r =
     (if http_error_msg r \<noteq> [] then Some (Exn HTTPError (http_error_msg r)) else None)"

text \<open>
  \<open>data.get(key, default)\<close>: defined on a dict only; on any other value the attribute lookup
  raises \<open>AttributeError\<close>.
\<close>

definition apostrophe :: string where
  "apostrophe = [CHR 0x27]"

fun py_get :: "pyval \<Rightarrow> string \<Rightarrow> pyval \<Rightarrow> exn + pyval" where
  "py_get (PDict kvs) key dflt = Inr (case map_of kvs key of None \<Rightarrow> dflt | Some v \<Rightarrow> v)"
| "py_get v key dflt =
     Inl (Exn OtherException
       (apostrophe @ type_name v @ apostrophe @ '' object has no attribute '' @ apostrophe @ ''get'' @ apostrophe))"

text \<open>
  The behaviour of the outside world during one handler call. Each field answers one kind of
  call: \<open>None\<close> means the call returns, \<open>Some e\<close> that it raises \<open>e\<close>. The replies are
  numbered in the order in which the handler makes them, from 0.
\<close>

record world =
  send_chat_action :: "int \<Rightarrow> string \<Rightarrow> exn option"
  post :: "string \<Rightarrow> payload \<Rightarrow> exn + response"
  reply_text :: "nat \<Rightarrow> pyval \<Rightarrow> exn option"
  reply_html :: "string \<Rightarrow> exn option"

text \<open>What a handler call does to the outside world, in order.\<close>

datatype event =
    SendChatAction int string
  | Post string payload
  | ReplyText pyval
  | ReplyHtml string
  | LogError string

fun is_reply :: "event \<Rightarrow> bool" where
  "is_reply (ReplyText v) = True"
| "is_reply (ReplyHtml s) = True"
| "is_reply e = False"

fun is_post :: "event \<Rightarrow> bool" where
  "is_post (Post u p) = True"
| "is_post e = False"

definition replies :: "event list \<Rightarrow> event list" where
  "replies evs = filter is_reply evs"

definition posts :: "event list \<Rightarrow> event list" where
  "posts evs = filter is_post evs"

section \<open>The handlers\<close>

record user =
  user_id :: int
  first_name :: string
  last_name :: "string option"

text \<open>
  An update as the two handlers receive it: a message with its text, the chat it came from
  and the user who sent it.
\<close>

record update =
  message_text :: string
  effective_chat_id :: int
  effective_user :: user

subsection \<open>\<open>start\<close> (lines 45 to 51)\<close>

text \<open>\<open>html.escape\<close> with \<open>quote=True\<close>, character by character.\<close>

definition escape_char :: "char \<Rightarrow> string" where
  "escape_char c =
     (if c = CHR ''&'' then ''&amp;''
      else if c = CHR ''<'' then ''&lt;''
      else if c = CHR ''>'' then ''&gt;''
      else if c = CHR 0x22 then ''&quot;''
      else if c = CHR 0x27 then ''&#x27;''
      else [c])"

definition escape :: "string \<Rightarrow> string" where
  "escape s = concat (map escape_char s)"

text \<open>\<open>User.full_name\<close> and \<open>User.mention_html\<close> of the \<open>telegram\<close> library.\<close>

definition full_name :: "user \<Rightarrow> string" where
  "full_name usr =
     (if py_not (last_name usr) then first_name usr
      else first_name usr @ '' '' @ str_opt (last_name usr))"

definition mention_html :: "user \<Rightarrow> string" where
  "mention_html usr =
     ''<a href='' @ [CHR 0x22] @ ''tg://user?id='' @ str_int (user_id usr) @ [CHR 0x22] @ ''>''
       @ escape (full_name usr) @ ''</a>''"

definition greeting :: "user \<Rightarrow> string" where
  "greeting usr =
     ''Hi '' @ mention_html usr @ ''! I'' @ apostrophe @ ''m a bot powered by a local Ollama model. ''
       @ ''Just send me a message and I'' @ apostrophe @ ''ll respond.''"

definition start :: "world \<Rightarrow> update \<Rightarrow> result \<times> event list" where
  "start w u =
     (let usr = effective_user u
      in (result_of (reply_html w (greeting usr)), [ReplyHtml (greeting usr)]))"

subsection \<open>\<open>handle_message\<close> (lines 54 to 103)\<close>

definition not_configured :: string where
  "not_configured =
     ''Ollama host is not configured. Please set the OLLAMA_HOST environment variable.''"

text \<open>
  The body of the \<open>try\<close> block (lines 70 to 85): the exception that leaves it, if any, and
  the events up to that point.
\<close>

definition try_body :: "config \<Rightarrow> world \<Rightarrow> string \<Rightarrow> exn option \<times> event list" where
  "try_body g w user_message =
     (let pl = \<lparr> model = OLLAMA_MODEL g, prompt = user_message, stream = False \<rparr>;
          sent = [Post (OLLAMA_GENERATE_ENDPOINT g) pl]
      in case post w (OLLAMA_GENERATE_ENDPOINT g) pl of
           Inl e \<Rightarrow> (Some e, sent)
         | Inr resp \<Rightarrow>
             (case raise_for_status resp of
                Some e \<Rightarrow> (Some e, sent)
              | None \<Rightarrow>
                  (case json_body resp of
                     Inl e \<Rightarrow> (Some e, sent)
                   | Inr data \<Rightarrow>
                       (case py_get data ''response'' (PStr ''No response from model.'') of
                          Inl e \<Rightarrow> (Some e, sent)
                        | Inr ollama_response \<Rightarrow>
                            (reply_text w 0 ollama_response, sent @ [ReplyText ollama_response])))))"

text \<open>
  The three \<open>except\<close> clauses (lines 87 to 103), tried in order for an exception \<open>e\<close> that
  left the \<open>try\<close> block after \<open>n\<close> replies had been attempted. Each one builds a message,
  logs it and replies with it.
\<close>

definition connection_error_message :: "config \<Rightarrow> string" where
  "connection_error_message g =
     ''Could not connect to the Ollama server at '' @ str_opt (OLLAMA_HOST g)
       @ ''. Please make sure it is running and accessible.''"

definition http_error_message :: "exn \<Rightarrow> string" where
  "http_error_message e = ''HTTP error from Ollama server: '' @ str_exn e"

definition unexpected_error_message :: "exn \<Rightarrow> string" where
  "unexpected_error_message e = ''An unexpected error occurred: '' @ str_exn e"

definition report :: "world \<Rightarrow> nat \<Rightarrow> string \<Rightarrow> result \<times> event list" where
  "report w n error_message =
     (result_of (reply_text w n (PStr error_message)),
      [LogError error_message, ReplyText (PStr error_message)])"

definition except_clauses :: "config \<Rightarrow> world \<Rightarrow> nat \<Rightarrow> exn \<Rightarrow> result \<times> event list" where
  "except_clauses g w n e =
     (case class_of e of
        ConnectionError \<Rightarrow> report w n (connection_error_message g)
      | HTTPError \<Rightarrow> report w n (http_error_message e)
      | OtherException \<Rightarrow> report w n (unexpected_error_message e))"

definition handle_message :: "config \<Rightarrow> world \<Rightarrow> update \<Rightarrow> result \<times> event list" where
  "handle_message g w u =
     (let user_message = message_text u;
          chat_id = effective_chat_id u
      in if py_not (OLLAMA_HOST g) then
           (result_of (reply_text w 0 (PStr not_configured)), [ReplyText (PStr not_configured)])
         else
           (case send_chat_action w chat_id ''typing'' of
              Some e \<Rightarrow> (Raised e, [SendChatAction chat_id ''typing''])
            | None \<Rightarrow>
                (case try_body g w user_message of
                   (None, evs) \<Rightarrow> (Returned, SendChatAction chat_id ''typing'' # evs)
                 | (Some e, evs) \<Rightarrow>
                     (case except_clauses g w (length (replies evs)) e of
                        (res, evs') \<Rightarrow> (res, SendChatAction chat_id ''typing'' # evs @ evs')))))"

subsection \<open>The dispatch loop (lines 106 to 116)\<close>


text \<open>
  What outlives a handler call inside the running process: the module-level configuration,
  the data that the messaging library keeps for the handlers between updates (reachable
  through \<open>context\<close> as \<open>bot_data\<close>, \<open>chat_data\<close> and \<open>user_data\<close>), and the lines
  written to the log so far.
\<close>

record process =
  globals :: config
  bot_data :: "(string \<times> pyval) list"
  chat_data :: "int \<Rightarrow> (string \<times> pyval) list"
  user_data :: "int \<Rightarrow> (string \<times> pyval) list"
  logged :: "string list"






text \<open>The process as \<open>main\<close> starts it: the configuration just loaded, no data, an empty log.\<close>

definition fresh_process :: "(string \<rightharpoonup> string) \<Rightarrow> process" where
  "fresh_process environ =
     \<lparr> globals = load_config environ, bot_data = [], chat_data = (\<lambda>chat. []),
       user_data = (\<lambda>usr. []), logged = [] \<rparr>"

section \<open>Concrete scenarios\<close>

text \<open>
  A configuration with the server address set, a user and a message, and some behaviours of
  the outside world: one where every call to the messaging platform returns and the
  inference endpoint gives a fixed answer, one where the typing indicator is refused, one
  where the first reply is refused, and one where neither the inference endpoint nor the
  messaging platform can be reached.
\<close>

definition local_config :: config where
  "local_config = load_config [''OLLAMA_HOST'' \<mapsto> ''http://localhost:11434'']"

definition alice :: user where
  "alice = \<lparr> user_id = 42, first_name = ''Alice'', last_name = None \<rparr>"

definition hello_update :: update where
  "hello_update = \<lparr> message_text = ''Hi there'', effective_chat_id = 7, effective_user = alice \<rparr>"

definition answer_with :: "int \<Rightarrow> string \<Rightarrow> pyval \<Rightarrow> exn + response" where
  "answer_with code phrase body =
     Inr \<lparr> status_code = code, reason = phrase,
           url = ''http://localhost:11434/api/generate'', json_body = Inr body \<rparr>"

definition quiet_world :: "(exn + response) \<Rightarrow> world" where
  "quiet_world answer =
     \<lparr> send_chat_action = (\<lambda>chat_id action. None),
       post = (\<lambda>address pl. answer),
       reply_text = (\<lambda>n v. None),
       reply_html = (\<lambda>s. None) \<rparr>"

definition blocked_world :: world where
  "blocked_world =
     (quiet_world (answer_with 200 ''OK'' (PDict [(''response'', PStr ''Hello!'')])))
       \<lparr> send_chat_action :=
           (\<lambda>chat_id action. Some (Exn OtherException ''Forbidden: bot was blocked by the user'')) \<rparr>"

definition rejecting_world :: world where
  "rejecting_world =
     (quiet_world (answer_with 200 ''OK'' (PDict [(''response'', PStr [])])))
       \<lparr> reply_text :=
           (\<lambda>n v. if n = 0 then Some (Exn OtherException ''Message text is empty'') else None) \<rparr>"

definition offline_world :: world where
  "offline_world =
     (quiet_world (Inl (Exn ConnectionError ''Connection refused'')))
       \<lparr> reply_text :=
           (\<lambda>n v. Some (Exn OtherException ''All connection attempts failed'')) \<rparr>"

text \<open>
  A connection that breaks while the answer is being read: \<open>requests.post\<close> then raises
  \<open>ChunkedEncodingError\<close>, which is a \<open>RequestException\<close> but not a \<open>ConnectionError\<close>.
\<close>

definition broken_world :: world where
  "broken_world =
     quiet_world (Inl (Exn OtherException ''Connection broken: IncompleteRead(0 bytes read)''))"



section \<open>Properties\<close>

subsection \<open>The shape of a handler call\<close>

lemma handle_message_unconfigured:
  "py_not (OLLAMA_HOST g) \<Longrightarrow>
   handle_message g w u =
     (result_of (reply_text w 0 (PStr not_configured)), [ReplyText (PStr not_configured)])"
  by (simp add: handle_message_def)

lemma try_body_decoded:
  assumes "post w (OLLAMA_GENERATE_ENDPOINT g)
             \<lparr> model = OLLAMA_MODEL g, prompt = m, stream = False \<rparr> = Inr r"
      and "raise_for_status r = None"
      and "json_body r = Inr (PDict kvs)"
  shows "try_body g w m =
           (reply_text w 0 (case map_of kvs ''response'' of
                              None \<Rightarrow> PStr ''No response from model.'' | Some v \<Rightarrow> v),
            [Post (OLLAMA_GENERATE_ENDPOINT g)
               \<lparr> model = OLLAMA_MODEL g, prompt = m, stream = False \<rparr>,
             ReplyText (case map_of kvs ''response'' of
                          None \<Rightarrow> PStr ''No response from model.'' | Some v \<Rightarrow> v)])"
  using assms by (simp add: try_body_def)

lemma try_body_raises:
  assumes "post w (OLLAMA_GENERATE_ENDPOINT g)
             \<lparr> model = OLLAMA_MODEL g, prompt = m, stream = False \<rparr> = Inl e"
  shows "try_body g w m =
           (Some e, [Post (OLLAMA_GENERATE_ENDPOINT g)
               \<lparr> model = OLLAMA_MODEL g, prompt = m, stream = False \<rparr>])"
  using assms by (simp add: try_body_def)

lemma try_body_bad_status:
  assumes "post w (OLLAMA_GENERATE_ENDPOINT g)
             \<lparr> model = OLLAMA_MODEL g, prompt = m, stream = False \<rparr> = Inr r"
      and "raise_for_status r = Some e"
  shows "try_body g w m =
           (Some e, [Post (OLLAMA_GENERATE_ENDPOINT g)
               \<lparr> model = OLLAMA_MODEL g, prompt = m, stream = False \<rparr>])"
  using assms by (simp add: try_body_def)

lemma raise_for_status_2xx:
  "200 \<le> status_code r \<Longrightarrow> status_code r < 300 \<Longrightarrow> raise_for_status r = None"
  by (simp add: raise_for_status_def http_error_msg_def)

lemma try_body_no_reply_unless_reply_raised:
  "try_body g w m = (Some e, evs) \<Longrightarrow> (\<forall>v. reply_text w 0 v = None) \<Longrightarrow> replies evs = []"
  by (auto simp add: try_body_def replies_def Let_def split: sum.splits option.splits)

lemma try_body_returns_one_reply:
  "try_body g w m = (None, evs) \<Longrightarrow> length (replies evs) = 1"
  by (auto simp add: try_body_def replies_def Let_def split: sum.splits option.splits)

lemma except_clauses_one_reply:
  "length (replies (snd (except_clauses g w n e))) = 1"
  by (simp add: except_clauses_def report_def replies_def split: exn_class.splits)

lemma handle_message_configured:
  assumes "\<not> py_not (OLLAMA_HOST g)"
      and "send_chat_action w (effective_chat_id u) ''typing'' = None"
  shows "handle_message g w u =
           (case try_body g w (message_text u) of
              (None, evs) \<Rightarrow> (Returned, SendChatAction (effective_chat_id u) ''typing'' # evs)
            | (Some e, evs) \<Rightarrow>
                (fst (except_clauses g w (length (replies evs)) e),
                 SendChatAction (effective_chat_id u) ''typing'' # evs
                   @ snd (except_clauses g w (length (replies evs)) e)))"
  using assms by (simp add: handle_message_def split: prod.splits option.splits)

lemma handle_message_decoded:
  assumes "\<not> py_not (OLLAMA_HOST g)"
      and "send_chat_action w (effective_chat_id u) ''typing'' = None"
      and "post w (OLLAMA_GENERATE_ENDPOINT g)
             \<lparr> model = OLLAMA_MODEL g, prompt = message_text u, stream = False \<rparr> = Inr r"
      and "200 \<le> status_code r" and "status_code r < 300"
      and "json_body r = Inr (PDict kvs)"
      and "v = (case map_of kvs ''response'' of
                  None \<Rightarrow> PStr ''No response from model.'' | Some x \<Rightarrow> x)"
  shows "prefix [SendChatAction (effective_chat_id u) ''typing'',
                 Post (OLLAMA_GENERATE_ENDPOINT g)
                   \<lparr> model = OLLAMA_MODEL g, prompt = message_text u, stream = False \<rparr>,
                 ReplyText v]
           (snd (handle_message g w u))"
    and "reply_text w 0 v = None \<Longrightarrow>
         handle_message g w u =
           (Returned,
            [SendChatAction (effective_chat_id u) ''typing'',
             Post (OLLAMA_GENERATE_ENDPOINT g)
               \<lparr> model = OLLAMA_MODEL g, prompt = message_text u, stream = False \<rparr>,
             ReplyText v])"
proof -
  have tb: "try_body g w (message_text u) =
              (reply_text w 0 v,
               [Post (OLLAMA_GENERATE_ENDPOINT g)
                  \<lparr> model = OLLAMA_MODEL g, prompt = message_text u, stream = False \<rparr>,
                ReplyText v])"
    using assms(3,4,5,6,7) by (simp add: try_body_decoded raise_for_status_2xx)
  show "prefix [SendChatAction (effective_chat_id u) ''typing'',
                 Post (OLLAMA_GENERATE_ENDPOINT g)
                   \<lparr> model = OLLAMA_MODEL g, prompt = message_text u, stream = False \<rparr>,
                 ReplyText v]
           (snd (handle_message g w u))"
    using assms(1,2) tb
    by (cases "reply_text w 0 v") (simp_all add: handle_message_configured)
  show "handle_message g w u =
           (Returned,
            [SendChatAction (effective_chat_id u) ''typing'',
             Post (OLLAMA_GENERATE_ENDPOINT g)
               \<lparr> model = OLLAMA_MODEL g, prompt = message_text u, stream = False \<rparr>,
             ReplyText v])"
    if "reply_text w 0 v = None"
    using assms(1,2) tb that by (simp add: handle_message_configured)
qed

lemma handle_message_reported:
  assumes "\<not> py_not (OLLAMA_HOST g)"
      and "send_chat_action w (effective_chat_id u) ''typing'' = None"
      and "try_body g w (message_text u) = (Some e, [ev])"
      and "\<not> is_reply ev"
      and "except_clauses g w 0 e = report w 0 m"
  shows "handle_message g w u =
           (result_of (reply_text w 0 (PStr m)),
            [SendChatAction (effective_chat_id u) ''typing'', ev,
             LogError m, ReplyText (PStr m)])"
  using assms by (simp add: handle_message_configured replies_def report_def)


subsection \<open>The dispatch loop\<close>











subsection \<open>The concrete scenarios\<close>

lemma local_config_simps:
  "OLLAMA_HOST local_config = Some ''http://localhost:11434''"
  "OLLAMA_GENERATE_ENDPOINT local_config = ''http://localhost:11434/api/generate''"
  "OLLAMA_MODEL local_config = ''llama3''"
  by (simp_all add: local_config_def load_config_def environ_get_def)

lemma hello_update_simps:
  "message_text hello_update = ''Hi there''"
  "effective_chat_id hello_update = 7"
  "effective_user hello_update = alice"
  by (simp_all add: hello_update_def)

lemma quiet_world_simps:
  "send_chat_action (quiet_world a) c t = None"
  "post (quiet_world a) address pl = a"
  "reply_text (quiet_world a) n v = None"
  "reply_html (quiet_world a) s = None"
  by (simp_all add: quiet_world_def)

lemma sublist_mid: "sublist xs (pre @ xs @ suf)"
  by (metis sublist_appendI)

subsection \<open>The claims\<close>

text \<open>
  C1 (as amended). When the calls to the messaging platform return (the typing indicator
  and every reply), \<open>handle_message\<close> makes exactly one reply call, whichever branch is
  taken: the configuration-missing branch, the success branch or one of the three error
  branches.
\<close>

theorem one_reply_when_messaging_returns:
  assumes "send_chat_action w (effective_chat_id u) ''typing'' = None"
      and "\<forall>n v. reply_text w n v = None"
  shows "length (replies (snd (handle_message g w u))) = 1"
proof (cases "py_not (OLLAMA_HOST g)")
  case True
  then show ?thesis by (simp add: handle_message_unconfigured replies_def)
next
  case False
  obtain x evs where tb: "try_body g w (message_text u) = (x, evs)"
    by (cases "try_body g w (message_text u)")
  show ?thesis
  proof (cases x)
    case None
    with tb have "length (replies evs) = 1" by (simp add: try_body_returns_one_reply)
    with False assms(1) tb None show ?thesis
      by (simp add: handle_message_configured replies_def)
  next
    case (Some e)
    with tb assms(2) have none: "replies evs = []"
      by (simp add: try_body_no_reply_unless_reply_raised)
    have "snd (handle_message g w u) =
            SendChatAction (effective_chat_id u) ''typing'' # evs @ snd (except_clauses g w 0 e)"
      using False assms(1) tb Some none by (simp add: handle_message_configured)
    then have "replies (snd (handle_message g w u)) = replies (snd (except_clauses g w 0 e))"
      using none by (simp add: replies_def)
    then show ?thesis by (simp add: except_clauses_one_reply)
  qed
qed

theorem one_reply_when_messaging_returns_witness:
  "send_chat_action (quiet_world (Inl (Exn ConnectionError ''refused''))) (effective_chat_id hello_update) ''typing'' = None
   \<and> (\<forall>n v. reply_text (quiet_world (Inl (Exn ConnectionError ''refused''))) n v = None)
   \<and> length (replies (snd (handle_message local_config (quiet_world (Inl (Exn ConnectionError ''refused''))) hello_update))) = 1"
  using one_reply_when_messaging_returns
          [of "quiet_world (Inl (Exn ConnectionError ''refused''))" hello_update local_config]
  by (simp add: quiet_world_def)

text \<open>
  C1 as stated fails: the typing indicator is sent before the \<open>try\<close> block, so when it
  raises the handler ends without any reply.
\<close>

theorem no_reply_when_typing_indicator_fails:
  "length (replies (snd (handle_message local_config blocked_world hello_update))) = 0"
  by (simp add: handle_message_def local_config_def load_config_def blocked_world_def
        quiet_world_def hello_update_def replies_def)

text \<open>
  In the other direction, a reply that raises inside the \<open>try\<close> block is caught by the
  last \<open>except\<close> clause, which replies again.
\<close>

lemma two_replies_when_first_reply_is_rejected:
  "replies (snd (handle_message local_config rejecting_world hello_update)) =
     [ReplyText (PStr []), ReplyText (PStr ''An unexpected error occurred: Message text is empty'')]"
  by (simp add: handle_message_def local_config_def load_config_def rejecting_world_def
        quiet_world_def hello_update_def replies_def try_body_def answer_with_def
        raise_for_status_def http_error_msg_def except_clauses_def report_def unexpected_error_message_def
        environ_get_def)

text \<open>
  C2. When \<open>OLLAMA_HOST\<close> is unset (or empty), \<open>handle_message\<close> does one thing only: it
  replies with the fixed configuration-error text. No request is posted, and the call ends
  with the outcome of that reply.
\<close>

theorem unset_host_replies_without_network:
  assumes "py_not (OLLAMA_HOST g)"
  shows "handle_message g w u =
           (result_of (reply_text w 0
              (PStr ''Ollama host is not configured. Please set the OLLAMA_HOST environment variable.'')),
            [ReplyText
              (PStr ''Ollama host is not configured. Please set the OLLAMA_HOST environment variable.'')])
         \<and> posts (snd (handle_message g w u)) = []"
  using assms by (simp add: handle_message_unconfigured not_configured_def posts_def)

theorem unset_host_replies_without_network_witness:
  "py_not (OLLAMA_HOST (load_config Map.empty))
   \<and> handle_message (load_config Map.empty) blocked_world hello_update =
       (Returned,
        [ReplyText
          (PStr ''Ollama host is not configured. Please set the OLLAMA_HOST environment variable.'')])
   \<and> posts (snd (handle_message (load_config Map.empty) blocked_world hello_update)) = []"
proof -
  have unset: "py_not (OLLAMA_HOST (load_config Map.empty))"
    by (simp add: load_config_def)
  have sent: "reply_text blocked_world 0 v = None" for v
    by (simp add: blocked_world_def quiet_world_def)
  show ?thesis
    using unset unset_host_replies_without_network [OF unset, of blocked_world hello_update]
    by (simp add: sent posts_def)
qed

text \<open>
  C3. When the inference endpoint answers with a 2xx status and a JSON object whose
  \<open>response\<close> entry is a string, the handler posts the request and replies with that
  string, unchanged; when this reply returns, nothing else happens.
\<close>

theorem success_reply_is_response_text:
  assumes "\<not> py_not (OLLAMA_HOST g)"
      and "send_chat_action w (effective_chat_id u) ''typing'' = None"
      and "post w (OLLAMA_GENERATE_ENDPOINT g)
             \<lparr> model = OLLAMA_MODEL g, prompt = message_text u, stream = False \<rparr> = Inr r"
      and "200 \<le> status_code r" and "status_code r < 300"
      and "json_body r = Inr (PDict kvs)"
      and "map_of kvs ''response'' = Some (PStr s)"
  shows "prefix [SendChatAction (effective_chat_id u) ''typing'',
                 Post (OLLAMA_GENERATE_ENDPOINT g)
                   \<lparr> model = OLLAMA_MODEL g, prompt = message_text u, stream = False \<rparr>,
                 ReplyText (PStr s)]
           (snd (handle_message g w u))
         \<and> (reply_text w 0 (PStr s) = None \<longrightarrow>
              handle_message g w u =
                (Returned,
                 [SendChatAction (effective_chat_id u) ''typing'',
                  Post (OLLAMA_GENERATE_ENDPOINT g)
                    \<lparr> model = OLLAMA_MODEL g, prompt = message_text u, stream = False \<rparr>,
                  ReplyText (PStr s)]))"
  using handle_message_decoded [OF assms(1-6), of "PStr s"] assms(7) by simp

theorem success_reply_is_response_text_witness:
  "\<not> py_not (OLLAMA_HOST local_config)
   \<and> post (quiet_world (answer_with 200 ''OK'' (PDict [(''response'', PStr ''Hello!'')])))
        (OLLAMA_GENERATE_ENDPOINT local_config)
        \<lparr> model = OLLAMA_MODEL local_config, prompt = message_text hello_update, stream = False \<rparr>
       = answer_with 200 ''OK'' (PDict [(''response'', PStr ''Hello!'')])
   \<and> handle_message local_config
        (quiet_world (answer_with 200 ''OK'' (PDict [(''response'', PStr ''Hello!'')])))
        hello_update =
       (Returned,
        [SendChatAction 7 ''typing'',
         Post ''http://localhost:11434/api/generate''
           \<lparr> model = ''llama3'', prompt = ''Hi there'', stream = False \<rparr>,
         ReplyText (PStr ''Hello!'')])"
proof -
  let ?w = "quiet_world (answer_with 200 ''OK'' (PDict [(''response'', PStr ''Hello!'')]))"
  let ?r = "\<lparr> status_code = 200, reason = ''OK'',
              url = ''http://localhost:11434/api/generate'',
              json_body = Inr (PDict [(''response'', PStr ''Hello!'')]) \<rparr>"
  have h1: "\<not> py_not (OLLAMA_HOST local_config)"
    by (simp add: local_config_simps)
  have h2: "send_chat_action ?w (effective_chat_id hello_update) ''typing'' = None"
    by (simp add: quiet_world_simps)
  have h3: "post ?w (OLLAMA_GENERATE_ENDPOINT local_config)
              \<lparr> model = OLLAMA_MODEL local_config, prompt = message_text hello_update,
                stream = False \<rparr> = Inr ?r"
    by (simp add: quiet_world_simps answer_with_def)
  have h4: "200 \<le> status_code ?r" and h5: "status_code ?r < 300"
    by simp_all
  have h6: "json_body ?r = Inr (PDict [(''response'', PStr ''Hello!'')])"
    by simp
  have h7: "map_of [(''response'', PStr ''Hello!'')] ''response'' = Some (PStr ''Hello!'')"
    by simp
  show ?thesis
    using h1 success_reply_is_response_text [OF h1 h2 h3 h4 h5 h6 h7]
    by (simp add: quiet_world_simps local_config_simps hello_update_simps)
qed

text \<open>
  C4 (as amended). When the inference endpoint answers with a 2xx status and a body that
  decodes to a JSON object without a \<open>response\<close> entry, the handler replies with the
  fixed fallback string \<open>No response from model.\<close>, and when this reply returns, nothing
  else happens.
\<close>

theorem missing_response_field_gives_fallback:
  assumes "\<not> py_not (OLLAMA_HOST g)"
      and "send_chat_action w (effective_chat_id u) ''typing'' = None"
      and "post w (OLLAMA_GENERATE_ENDPOINT g)
             \<lparr> model = OLLAMA_MODEL g, prompt = message_text u, stream = False \<rparr> = Inr r"
      and "200 \<le> status_code r" and "status_code r < 300"
      and "json_body r = Inr (PDict kvs)"
      and "map_of kvs ''response'' = None"
  shows "prefix [SendChatAction (effective_chat_id u) ''typing'',
                 Post (OLLAMA_GENERATE_ENDPOINT g)
                   \<lparr> model = OLLAMA_MODEL g, prompt = message_text u, stream = False \<rparr>,
                 ReplyText (PStr ''No response from model.'')]
           (snd (handle_message g w u))
         \<and> (reply_text w 0 (PStr ''No response from model.'') = None \<longrightarrow>
              handle_message g w u =
                (Returned,
                 [SendChatAction (effective_chat_id u) ''typing'',
                  Post (OLLAMA_GENERATE_ENDPOINT g)
                    \<lparr> model = OLLAMA_MODEL g, prompt = message_text u, stream = False \<rparr>,
                  ReplyText (PStr ''No response from model.'')]))"
  using handle_message_decoded [OF assms(1-6), of "PStr ''No response from model.''"] assms(7)
  by simp

theorem missing_response_field_gives_fallback_witness:
  "\<not> py_not (OLLAMA_HOST local_config)
   \<and> map_of [(''model'', PStr ''llama3''), (''done'', PBool True)] ''response'' = None
   \<and> handle_message local_config
        (quiet_world (answer_with 200 ''OK''
           (PDict [(''model'', PStr ''llama3''), (''done'', PBool True)])))
        hello_update =
       (Returned,
        [SendChatAction 7 ''typing'',
         Post ''http://localhost:11434/api/generate''
           \<lparr> model = ''llama3'', prompt = ''Hi there'', stream = False \<rparr>,
         ReplyText (PStr ''No response from model.'')])"
proof -
  let ?body = "PDict [(''model'', PStr ''llama3''), (''done'', PBool True)]"
  let ?w = "quiet_world (answer_with 200 ''OK'' ?body)"
  let ?r = "\<lparr> status_code = 200, reason = ''OK'',
              url = ''http://localhost:11434/api/generate'', json_body = Inr ?body \<rparr>"
  have h1: "\<not> py_not (OLLAMA_HOST local_config)"
    by (simp add: local_config_simps)
  have h2: "send_chat_action ?w (effective_chat_id hello_update) ''typing'' = None"
    by (simp add: quiet_world_simps)
  have h3: "post ?w (OLLAMA_GENERATE_ENDPOINT local_config)
              \<lparr> model = OLLAMA_MODEL local_config, prompt = message_text hello_update,
                stream = False \<rparr> = Inr ?r"
    by (simp add: quiet_world_simps answer_with_def)
  have h4: "200 \<le> status_code ?r" and h5: "status_code ?r < 300"
    by simp_all
  have h6: "json_body ?r = Inr ?body"
    by simp
  have h7: "map_of [(''model'', PStr ''llama3''), (''done'', PBool True)] ''response'' = None"
    by simp
  show ?thesis
    using h1 h7 missing_response_field_gives_fallback [OF h1 h2 h3 h4 h5 h6 h7]
    by (simp add: quiet_world_simps local_config_simps hello_update_simps)
qed

text \<open>
  C4 as stated fails for a 2xx body that is valid JSON but not an object. The empty array
  has no \<open>response\<close> field, yet \<open>data.get\<close> raises \<open>AttributeError\<close> on a list, and the
  last \<open>except\<close> clause logs and replies with its own message instead of the fallback.
\<close>

theorem array_body_gets_unexpected_error_reply:
  "handle_message local_config (quiet_world (answer_with 200 ''OK'' (PList []))) hello_update =
     (Returned,
      [SendChatAction 7 ''typing'',
       Post ''http://localhost:11434/api/generate''
         \<lparr> model = ''llama3'', prompt = ''Hi there'', stream = False \<rparr>,
       LogError (''An unexpected error occurred: '' @ [CHR 0x27] @ ''list'' @ [CHR 0x27]
         @ '' object has no attribute '' @ [CHR 0x27] @ ''get'' @ [CHR 0x27]),
       ReplyText (PStr (''An unexpected error occurred: '' @ [CHR 0x27] @ ''list'' @ [CHR 0x27]
         @ '' object has no attribute '' @ [CHR 0x27] @ ''get'' @ [CHR 0x27]))])"
  by (simp add: handle_message_def try_body_def raise_for_status_def http_error_msg_def
        except_clauses_def report_def replies_def unexpected_error_message_def apostrophe_def
        answer_with_def quiet_world_simps local_config_simps hello_update_simps)

text \<open>
  C5 (as amended). When the inference endpoint answers with a status from 400 to 599, the
  handler does not read the body: it logs and replies with the text
  \<open>HTTP error from Ollama server:\<close> followed by the status code, \<open>Client Error\<close> or
  \<open>Server Error\<close>, the reason phrase and the address. The call ends with the outcome of that
  reply, so it returns normally whenever the reply does.
\<close>

theorem error_status_is_reported:
  assumes "\<not> py_not (OLLAMA_HOST g)"
      and "send_chat_action w (effective_chat_id u) ''typing'' = None"
      and "post w (OLLAMA_GENERATE_ENDPOINT g)
             \<lparr> model = OLLAMA_MODEL g, prompt = message_text u, stream = False \<rparr> = Inr r"
      and "400 \<le> status_code r" and "status_code r < 600"
      and "m = ''HTTP error from Ollama server: '' @ str_int (status_code r)
                 @ (if status_code r < 500 then '' Client Error: '' else '' Server Error: '')
                 @ reason r @ '' for url: '' @ url r"
  shows "handle_message g w u =
           (result_of (reply_text w 0 (PStr m)),
            [SendChatAction (effective_chat_id u) ''typing'',
             Post (OLLAMA_GENERATE_ENDPOINT g)
               \<lparr> model = OLLAMA_MODEL g, prompt = message_text u, stream = False \<rparr>,
             LogError m, ReplyText (PStr m)])
         \<and> (reply_text w 0 (PStr m) = None \<longrightarrow> fst (handle_message g w u) = Returned)"
proof -
  have msg: "http_error_msg r = str_int (status_code r)
                 @ (if status_code r < 500 then '' Client Error: '' else '' Server Error: '')
                 @ reason r @ '' for url: '' @ url r"
    using assms(4,5) by (simp add: http_error_msg_def)
  then have "http_error_msg r \<noteq> []"
    by (simp split: if_splits)
  then have raised: "raise_for_status r = Some (Exn HTTPError (http_error_msg r))"
    by (simp add: raise_for_status_def)
  have tb: "try_body g w (message_text u) =
              (Some (Exn HTTPError (http_error_msg r)),
               [Post (OLLAMA_GENERATE_ENDPOINT g)
                  \<lparr> model = OLLAMA_MODEL g, prompt = message_text u, stream = False \<rparr>])"
    using assms(3) raised by (rule try_body_bad_status)
  have ex: "except_clauses g w 0 (Exn HTTPError (http_error_msg r)) = report w 0 m"
    using msg assms(6) by (simp add: except_clauses_def http_error_message_def)
  have eq: "handle_message g w u =
           (result_of (reply_text w 0 (PStr m)),
            [SendChatAction (effective_chat_id u) ''typing'',
             Post (OLLAMA_GENERATE_ENDPOINT g)
               \<lparr> model = OLLAMA_MODEL g, prompt = message_text u, stream = False \<rparr>,
             LogError m, ReplyText (PStr m)])"
    using assms(1,2) tb _ ex by (rule handle_message_reported) simp
  then show ?thesis by simp
qed

theorem error_status_is_reported_witness:
  "\<not> py_not (OLLAMA_HOST local_config)
   \<and> handle_message local_config
        (quiet_world (answer_with 500 ''Internal Server Error'' (PDict [(''response'', PStr ''Hello!'')])))
        hello_update =
       (Returned,
        [SendChatAction 7 ''typing'',
         Post ''http://localhost:11434/api/generate''
           \<lparr> model = ''llama3'', prompt = ''Hi there'', stream = False \<rparr>,
         LogError ''HTTP error from Ollama server: 500 Server Error: Internal Server Error for url: http://localhost:11434/api/generate'',
         ReplyText (PStr ''HTTP error from Ollama server: 500 Server Error: Internal Server Error for url: http://localhost:11434/api/generate'')])"
proof -
  let ?body = "PDict [(''response'', PStr ''Hello!'')]"
  let ?w = "quiet_world (answer_with 500 ''Internal Server Error'' ?body)"
  let ?r = "\<lparr> status_code = 500, reason = ''Internal Server Error'',
              url = ''http://localhost:11434/api/generate'', json_body = Inr ?body \<rparr>"
  let ?m = "''HTTP error from Ollama server: 500 Server Error: Internal Server Error for url: http://localhost:11434/api/generate''"
  have h1: "\<not> py_not (OLLAMA_HOST local_config)"
    by (simp add: local_config_simps)
  have h2: "send_chat_action ?w (effective_chat_id hello_update) ''typing'' = None"
    by (simp add: quiet_world_simps)
  have h3: "post ?w (OLLAMA_GENERATE_ENDPOINT local_config)
              \<lparr> model = OLLAMA_MODEL local_config, prompt = message_text hello_update,
                stream = False \<rparr> = Inr ?r"
    by (simp add: quiet_world_simps answer_with_def)
  have h4: "400 \<le> status_code ?r" and h5: "status_code ?r < 600"
    by simp_all
  have digits: "str_int 500 = ''500''"
    by (simp add: str_int_def str_nat.simps digit_char_def)
  have h6: "?m = ''HTTP error from Ollama server: '' @ str_int (status_code ?r)
                 @ (if status_code ?r < 500 then '' Client Error: '' else '' Server Error: '')
                 @ reason ?r @ '' for url: '' @ url ?r"
    by (simp add: digits)
  show ?thesis
    using h1 error_status_is_reported [OF h1 h2 h3 h4 h5 h6]
    by (simp add: quiet_world_simps local_config_simps hello_update_simps)
qed

text \<open>
  C5 as stated fails for a status that is neither 2xx nor an error for
  \<open>raise_for_status\<close>: with 304 the body is decoded and relayed as on success.
\<close>

theorem not_modified_status_is_parsed:
  "handle_message local_config
     (quiet_world (answer_with 304 ''Not Modified'' (PDict [(''response'', PStr ''Hello!'')])))
     hello_update =
     (Returned,
      [SendChatAction 7 ''typing'',
       Post ''http://localhost:11434/api/generate''
         \<lparr> model = ''llama3'', prompt = ''Hi there'', stream = False \<rparr>,
       ReplyText (PStr ''Hello!'')])"
  by (simp add: handle_message_def try_body_def raise_for_status_def http_error_msg_def
        answer_with_def quiet_world_simps local_config_simps hello_update_simps)

text \<open>
  C6 (as amended). When the request to the inference endpoint raises
  \<open>requests.exceptions.ConnectionError\<close> (or a subclass of it), the handler logs and
  replies with a text that names the configured address and asks to make sure that the
  server is running. That exception does not leave the handler: the call ends with the
  outcome of the reply, so it returns normally whenever the reply does.
\<close>

theorem connection_failure_is_reported:
  assumes "OLLAMA_HOST g = Some h" and "h \<noteq> []"
      and "send_chat_action w (effective_chat_id u) ''typing'' = None"
      and "post w (OLLAMA_GENERATE_ENDPOINT g)
             \<lparr> model = OLLAMA_MODEL g, prompt = message_text u, stream = False \<rparr> = Inl e"
      and "class_of e = ConnectionError"
      and "m = ''Could not connect to the Ollama server at '' @ h
                 @ ''. Please make sure it is running and accessible.''"
  shows "handle_message g w u =
           (result_of (reply_text w 0 (PStr m)),
            [SendChatAction (effective_chat_id u) ''typing'',
             Post (OLLAMA_GENERATE_ENDPOINT g)
               \<lparr> model = OLLAMA_MODEL g, prompt = message_text u, stream = False \<rparr>,
             LogError m, ReplyText (PStr m)])
         \<and> sublist h m
         \<and> (reply_text w 0 (PStr m) = None \<longrightarrow> fst (handle_message g w u) = Returned)"
proof -
  have configured: "\<not> py_not (OLLAMA_HOST g)"
    using assms(1,2) by simp
  have tb: "try_body g w (message_text u) =
              (Some e, [Post (OLLAMA_GENERATE_ENDPOINT g)
                  \<lparr> model = OLLAMA_MODEL g, prompt = message_text u, stream = False \<rparr>])"
    using assms(4) by (rule try_body_raises)
  have ex: "except_clauses g w 0 e = report w 0 m"
    using assms(1,5,6) by (simp add: except_clauses_def connection_error_message_def)
  have eq: "handle_message g w u =
           (result_of (reply_text w 0 (PStr m)),
            [SendChatAction (effective_chat_id u) ''typing'',
             Post (OLLAMA_GENERATE_ENDPOINT g)
               \<lparr> model = OLLAMA_MODEL g, prompt = message_text u, stream = False \<rparr>,
             LogError m, ReplyText (PStr m)])"
    using configured assms(3) tb _ ex by (rule handle_message_reported) simp
  have named: "sublist h m"
    unfolding assms(6) by (rule sublist_appendI)
  from eq named show ?thesis by simp
qed

theorem connection_failure_is_reported_witness:
  "OLLAMA_HOST local_config = Some ''http://localhost:11434''
   \<and> sublist ''http://localhost:11434''
        ''Could not connect to the Ollama server at http://localhost:11434. Please make sure it is running and accessible.''
   \<and> handle_message local_config (quiet_world (Inl (Exn ConnectionError ''Connection refused'')))
        hello_update =
       (Returned,
        [SendChatAction 7 ''typing'',
         Post ''http://localhost:11434/api/generate''
           \<lparr> model = ''llama3'', prompt = ''Hi there'', stream = False \<rparr>,
         LogError ''Could not connect to the Ollama server at http://localhost:11434. Please make sure it is running and accessible.'',
         ReplyText (PStr ''Could not connect to the Ollama server at http://localhost:11434. Please make sure it is running and accessible.'')])"
proof -
  let ?e = "Exn ConnectionError ''Connection refused''"
  let ?w = "quiet_world (Inl ?e)"
  let ?m = "''Could not connect to the Ollama server at http://localhost:11434. Please make sure it is running and accessible.''"
  have h1: "OLLAMA_HOST local_config = Some ''http://localhost:11434''"
    by (simp add: local_config_simps)
  have h2: "''http://localhost:11434'' \<noteq> []"
    by simp
  have h3: "send_chat_action ?w (effective_chat_id hello_update) ''typing'' = None"
    by (simp add: quiet_world_simps)
  have h4: "post ?w (OLLAMA_GENERATE_ENDPOINT local_config)
              \<lparr> model = OLLAMA_MODEL local_config, prompt = message_text hello_update,
                stream = False \<rparr> = Inl ?e"
    by (simp add: quiet_world_simps)
  have h5: "class_of ?e = ConnectionError"
    by simp
  have h6: "?m = ''Could not connect to the Ollama server at '' @ ''http://localhost:11434''
                 @ ''. Please make sure it is running and accessible.''"
    by simp
  show ?thesis
    using h1 connection_failure_is_reported [OF h1 h2 h3 h4 h5 h6]
    by (simp add: quiet_world_simps local_config_simps hello_update_simps)
qed

text \<open>
  C6 as stated fails for a connection-level failure that \<open>requests\<close> reports with another
  class. When the connection breaks while the answer is read, \<open>requests.post\<close> raises
  \<open>ChunkedEncodingError\<close>; the first \<open>except\<close> clause does not match it, and the last one
  replies with a text that does not name the configured address.
\<close>

theorem broken_connection_reply_omits_address:
  "handle_message local_config broken_world hello_update =
     (Returned,
      [SendChatAction 7 ''typing'',
       Post ''http://localhost:11434/api/generate''
         \<lparr> model = ''llama3'', prompt = ''Hi there'', stream = False \<rparr>,
       LogError ''An unexpected error occurred: Connection broken: IncompleteRead(0 bytes read)'',
       ReplyText
         (PStr ''An unexpected error occurred: Connection broken: IncompleteRead(0 bytes read)'')])
   \<and> \<not> sublist ''http://localhost:11434''
         ''An unexpected error occurred: Connection broken: IncompleteRead(0 bytes read)''"
proof -
  have "handle_message local_config broken_world hello_update =
     (Returned,
      [SendChatAction 7 ''typing'',
       Post ''http://localhost:11434/api/generate''
         \<lparr> model = ''llama3'', prompt = ''Hi there'', stream = False \<rparr>,
       LogError ''An unexpected error occurred: Connection broken: IncompleteRead(0 bytes read)'',
       ReplyText
         (PStr ''An unexpected error occurred: Connection broken: IncompleteRead(0 bytes read)'')])"
    by (simp add: handle_message_def try_body_def except_clauses_def report_def replies_def
          unexpected_error_message_def broken_world_def quiet_world_simps local_config_simps
          hello_update_simps)
  moreover have "\<not> sublist ''http://localhost:11434''
         ''An unexpected error occurred: Connection broken: IncompleteRead(0 bytes read)''"
    by (simp add: sublist_code)
  ultimately show ?thesis by simp
qed

text \<open>
  The proviso on the reply is needed as well: when the reply cannot be delivered either,
  the exception of \<open>reply_text\<close> is raised inside the \<open>except\<close> clause and leaves the
  handler.
\<close>

lemma connection_failure_with_failing_reply_raises:
  "fst (handle_message local_config offline_world hello_update) =
     Raised (Exn OtherException ''All connection attempts failed'')"
  by (simp add: handle_message_def try_body_def except_clauses_def report_def replies_def
        offline_world_def quiet_world_def local_config_simps hello_update_simps)



text \<open>
  C8. Loading the configuration raises nothing and gives: the model \<open>llama3\<close> when
  \<open>OLLAMA_MODEL\<close> is absent; the endpoint as the base address followed by
  \<open>/api/generate\<close>; and, when \<open>OLLAMA_HOST\<close> is absent, the endpoint
  \<open>None/api/generate\<close>, which \<open>handle_message\<close> never posts to, since it replies
  with the configuration error instead.
\<close>

theorem load_config_resolution:
  "(environ ''OLLAMA_MODEL'' = None \<longrightarrow> OLLAMA_MODEL (load_config environ) = ''llama3'')
   \<and> (\<forall>h. environ ''OLLAMA_HOST'' = Some h \<longrightarrow>
          OLLAMA_GENERATE_ENDPOINT (load_config environ) = h @ ''/api/generate'')
   \<and> (environ ''OLLAMA_HOST'' = None \<longrightarrow>
          OLLAMA_GENERATE_ENDPOINT (load_config environ) = ''None/api/generate''
          \<and> posts (snd (handle_message (load_config environ) w u)) = []
          \<and> replies (snd (handle_message (load_config environ) w u)) = [ReplyText (PStr not_configured)])"
proof -
  have "posts (snd (handle_message (load_config environ) w u)) = []
        \<and> replies (snd (handle_message (load_config environ) w u)) = [ReplyText (PStr not_configured)]"
    if "environ ''OLLAMA_HOST'' = None"
  proof -
    from that have "py_not (OLLAMA_HOST (load_config environ))"
      by (simp add: load_config_def)
    then show ?thesis
      by (simp add: handle_message_unconfigured posts_def replies_def)
  qed
  then show ?thesis
    by (simp add: load_config_def environ_get_def)
qed

theorem load_config_resolution_witness:
  "Map.empty ''OLLAMA_MODEL'' = (None :: string option)
   \<and> OLLAMA_MODEL (load_config Map.empty) = ''llama3''
   \<and> [''OLLAMA_HOST'' \<mapsto> ''http://localhost:11434''] ''OLLAMA_HOST'' = Some ''http://localhost:11434''
   \<and> OLLAMA_GENERATE_ENDPOINT (load_config [''OLLAMA_HOST'' \<mapsto> ''http://localhost:11434''])
        = ''http://localhost:11434/api/generate''
   \<and> Map.empty ''OLLAMA_HOST'' = (None :: string option)
   \<and> OLLAMA_GENERATE_ENDPOINT (load_config Map.empty) = ''None/api/generate''
   \<and> posts (snd (handle_message (load_config Map.empty) blocked_world hello_update)) = []"
  using load_config_resolution [of Map.empty blocked_world hello_update]
        load_config_resolution [of "[''OLLAMA_HOST'' \<mapsto> ''http://localhost:11434'']" blocked_world hello_update]
  by simp

text \<open>
  C9. For a user whose first name is Alice, \<open>start\<close> sends one HTML reply, the greeting,
  which contains \<open>Alice\<close>, and posts nothing to the inference endpoint.
\<close>

theorem start_greets_by_name:
  assumes "first_name (effective_user u) = ''Alice''"
  shows "start w u =
           (result_of (reply_html w (greeting (effective_user u))),
            [ReplyHtml (greeting (effective_user u))])
         \<and> sublist ''Alice'' (greeting (effective_user u))
         \<and> posts (snd (start w u)) = []"
proof -
  obtain rest where name: "full_name (effective_user u) = ''Alice'' @ rest"
    using assms by (cases "py_not (last_name (effective_user u))") (simp_all add: full_name_def)
  have esc: "escape (full_name (effective_user u)) = ''Alice'' @ escape rest"
    unfolding name by (simp add: escape_def escape_char_def)
  have "greeting (effective_user u) =
          (''Hi <a href='' @ [CHR 0x22] @ ''tg://user?id='' @ str_int (user_id (effective_user u))
             @ [CHR 0x22] @ ''>'')
          @ ''Alice''
          @ (escape rest @ ''</a>! I'' @ apostrophe @ ''m a bot powered by a local Ollama model. ''
             @ ''Just send me a message and I'' @ apostrophe @ ''ll respond.'')"
    by (simp add: greeting_def mention_html_def esc)
  then have "sublist ''Alice'' (greeting (effective_user u))"
    by (metis sublist_mid)
  then show ?thesis
    by (simp add: start_def posts_def Let_def)
qed

theorem start_greets_by_name_witness:
  "first_name (effective_user hello_update) = ''Alice''
   \<and> start (quiet_world (Inl (Exn ConnectionError ''Connection refused''))) hello_update =
       (Returned,
        [ReplyHtml (''Hi <a href='' @ [CHR 0x22] @ ''tg://user?id=42'' @ [CHR 0x22]
           @ ''>Alice</a>! I'' @ [CHR 0x27] @ ''m a bot powered by a local Ollama model. ''
           @ ''Just send me a message and I'' @ [CHR 0x27] @ ''ll respond.'')])
   \<and> sublist ''Alice'' (greeting (effective_user hello_update))"
proof -
  have h: "first_name (effective_user hello_update) = ''Alice''"
    by (simp add: hello_update_def alice_def)
  have digits: "str_int 42 = ''42''"
    by (simp add: str_int_def str_nat.simps digit_char_def)
  have shown: "greeting (effective_user hello_update) =
           ''Hi <a href='' @ [CHR 0x22] @ ''tg://user?id=42'' @ [CHR 0x22]
           @ ''>Alice</a>! I'' @ [CHR 0x27] @ ''m a bot powered by a local Ollama model. ''
           @ ''Just send me a message and I'' @ [CHR 0x27] @ ''ll respond.''"
    by (simp add: greeting_def mention_html_def full_name_def hello_update_def alice_def
          digits escape_def escape_char_def apostrophe_def)
  show ?thesis
    using h start_greets_by_name [OF h, of "quiet_world (Inl (Exn ConnectionError ''Connection refused''))"]
    by (simp add: shown quiet_world_simps)
qed

text \<open>
  C10. When the JSON object of a 2xx answer has a \<open>response\<close> entry, its value is what
  \<open>data.get\<close> returns and what is passed to the reply call, whatever its type: the
  fallback text is used only when the entry is absent.
\<close>

theorem response_value_passes_through_untyped:
  assumes "\<not> py_not (OLLAMA_HOST g)"
      and "send_chat_action w (effective_chat_id u) ''typing'' = None"
      and "post w (OLLAMA_GENERATE_ENDPOINT g)
             \<lparr> model = OLLAMA_MODEL g, prompt = message_text u, stream = False \<rparr> = Inr r"
      and "200 \<le> status_code r" and "status_code r < 300"
      and "json_body r = Inr (PDict kvs)"
      and "map_of kvs ''response'' = Some v"
  shows "py_get (PDict kvs) ''response'' (PStr ''No response from model.'') = Inr v
         \<and> prefix [SendChatAction (effective_chat_id u) ''typing'',
                 Post (OLLAMA_GENERATE_ENDPOINT g)
                   \<lparr> model = OLLAMA_MODEL g, prompt = message_text u, stream = False \<rparr>,
                 ReplyText v]
           (snd (handle_message g w u))
         \<and> (reply_text w 0 v = None \<longrightarrow>
              handle_message g w u =
                (Returned,
                 [SendChatAction (effective_chat_id u) ''typing'',
                  Post (OLLAMA_GENERATE_ENDPOINT g)
                    \<lparr> model = OLLAMA_MODEL g, prompt = message_text u, stream = False \<rparr>,
                  ReplyText v]))"
  using handle_message_decoded [OF assms(1-6), of v] assms(7)
  by simp

theorem response_value_passes_through_untyped_witness:
  "\<not> py_not (OLLAMA_HOST local_config)
   \<and> map_of [(''response'', PNone)] ''response'' = Some PNone
   \<and> handle_message local_config
        (quiet_world (answer_with 200 ''OK'' (PDict [(''response'', PNone)]))) hello_update =
       (Returned,
        [SendChatAction 7 ''typing'',
         Post ''http://localhost:11434/api/generate''
           \<lparr> model = ''llama3'', prompt = ''Hi there'', stream = False \<rparr>,
         ReplyText PNone])"
proof -
  let ?body = "PDict [(''response'', PNone)]"
  let ?w = "quiet_world (answer_with 200 ''OK'' ?body)"
  let ?r = "\<lparr> status_code = 200, reason = ''OK'',
              url = ''http://localhost:11434/api/generate'', json_body = Inr ?body \<rparr>"
  have h1: "\<not> py_not (OLLAMA_HOST local_config)"
    by (simp add: local_config_simps)
  have h2: "send_chat_action ?w (effective_chat_id hello_update) ''typing'' = None"
    by (simp add: quiet_world_simps)
  have h3: "post ?w (OLLAMA_GENERATE_ENDPOINT local_config)
              \<lparr> model = OLLAMA_MODEL local_config, prompt = message_text hello_update,
                stream = False \<rparr> = Inr ?r"
    by (simp add: quiet_world_simps answer_with_def)
  have h4: "200 \<le> status_code ?r" and h5: "status_code ?r < 300"
    by simp_all
  have h6: "json_body ?r = Inr ?body"
    by simp
  have h7: "map_of [(''response'', PNone)] ''response'' = Some PNone"
    by simp
  show ?thesis
    using h1 h7 response_value_passes_through_untyped [OF h1 h2 h3 h4 h5 h6 h7]
    by (simp add: quiet_world_simps local_config_simps hello_update_simps)
qed

end
